theory Spec2Isabelle
  imports Main "HOL-Library.Word"
begin

section \<open>tagconfig: a shallow embedding of \<^verbatim>\<open>tagconfig.go\<close>\<close>

text \<open>
  The package walks a struct through Go's reflection library, looks every tagged field up
  in a \<^verbatim>\<open>TagValueGetter\<close> and converts the string it gets into the field's type
  (\<^verbatim>\<open>Process\<close>, \<^verbatim>\<open>processField\<close>, \<^verbatim>\<open>decoderFrom\<close>);
  \<^verbatim>\<open>PopulateExternalSource\<close> walks the struct the other way and hands every tagged field
  to a \<^verbatim>\<open>TagValueSetter\<close>.

  What the reflection library gives the code is modelled as data: a type descriptor
  (\<open>rtype\<close>), a field descriptor (\<open>StructField\<close>) and a value (\<open>rvalue\<close>).  A
  \<^verbatim>\<open>reflect.Value\<close> is a type together with a value, so the functions below take both.
\<close>

subsection \<open>Kinds, types and struct fields\<close>

text \<open>The constants of \<^verbatim>\<open>reflect.Kind\<close>, in the order of the library.\<close>

datatype kind =
    KInvalid | KBool
  | KInt | KInt8 | KInt16 | KInt32 | KInt64
  | KUint | KUint8 | KUint16 | KUint32 | KUint64 | KUintptr
  | KFloat32 | KFloat64 | KComplex64 | KComplex128
  | KArray | KChan | KFunc | KInterface | KMap
  | KPtr | KSlice | KString | KStruct | KUnsafePointer

text \<open>
  A struct tag is kept as the list of its key/value pairs; \<^verbatim>\<open>Tag.Get\<close> answers with the
  value of the first pair under the key, and with the empty string when there is none.
\<close>

type_synonym StructTag = "(string \<times> string) list"

definition Tag_Get :: "StructTag \<Rightarrow> string \<Rightarrow> string" where
  "Tag_Get tg k = (case map_of tg k of None \<Rightarrow> [] | Some s \<Rightarrow> s)"

text \<open>
  \<^verbatim>\<open>reflect.StructField\<close> without its type: the field's name, its package path (empty
  exactly for an exported field), its tag and whether it is embedded.
\<close>

record FieldInfo =
  Name :: string
  PkgPath :: string
  Tag :: StructTag
  Anonymous :: bool

text \<open>
  A type descriptor.  Every type carries its package path and name (both empty for an
  unnamed type).  \<open>Basic\<close> stands for the types whose components the package never looks
  at: the scalars, and arrays, channels, functions, interfaces, maps and complex numbers.
\<close>

datatype rtype =
    Basic kind string string
  | SliceOf string string rtype
  | PtrTo string string rtype
  | StructOf string string "(FieldInfo \<times> rtype) list"

type_synonym StructField = "FieldInfo \<times> rtype"

fun Kind :: "rtype \<Rightarrow> kind" where
  "Kind (Basic k p n) = k"
| "Kind (SliceOf p n t) = KSlice"
| "Kind (PtrTo p n t) = KPtr"
| "Kind (StructOf p n fs) = KStruct"

text \<open>\<^verbatim>\<open>NumField\<close> and \<^verbatim>\<open>Field(i)\<close> of a struct type, as the list of its fields.\<close>

fun Fields :: "rtype \<Rightarrow> StructField list" where
  "Fields (StructOf p n fs) = fs"
| "Fields t = []"

subsection \<open>Values\<close>

text \<open>
  Integers are kept as mathematical integers inside the range of their kind, floats as
  their IEEE bit patterns.  \<open>VNil\<close> is the nil pointer and the nil slice; a pointer that
  is not nil is \<open>VPtr\<close> of what it points to (no two fields are taken to share a
  pointee).  \<open>VOther\<close> is a value of a kind the package never inspects.  A struct
  value holds one value for every field of its type, in the order of the fields; the loops
  over the fields below stop where a value is missing, which no value of Go does.
\<close>

datatype rvalue =
    VBool bool
  | VInt int
  | VUint nat
  | VFloat32 "32 word"
  | VFloat64 "64 word"
  | VString string
  | VSlice "rvalue list"
  | VNil
  | VPtr rvalue
  | VStruct "rvalue list"
  | VOther nat

text \<open>The zero value of a type: what \<^verbatim>\<open>reflect.New\<close> and \<^verbatim>\<open>reflect.MakeSlice\<close> allocate.\<close>

fun zero :: "rtype \<Rightarrow> rvalue" where
  "zero (Basic k p n) =
     (if k = KBool then VBool False
      else if k \<in> {KInt, KInt8, KInt16, KInt32, KInt64} then VInt 0
      else if k \<in> {KUint, KUint8, KUint16, KUint32, KUint64, KUintptr} then VUint 0
      else if k = KFloat32 then VFloat32 0
      else if k = KFloat64 then VFloat64 0
      else if k = KString then VString []
      else if k \<in> {KChan, KFunc, KInterface, KMap, KPtr, KSlice, KUnsafePointer} then VNil
      else VOther 0)"
| "zero (SliceOf p n t) = VNil"
| "zero (PtrTo p n t) = VNil"
| "zero (StructOf p n fs) = VStruct (map (\<lambda>f. zero (snd f)) fs)"

subsection \<open>Errors\<close>

text \<open>
  The error values the package returns: its fixed \<^verbatim>\<open>ErrInvalidSpecification\<close>, the
  \<^verbatim>\<open>fmt.Errorf("required key %s missing value", key)\<close> of \<^verbatim>\<open>Process\<close>, a
  \<^verbatim>\<open>ParseError\<close> with its three fields \<^verbatim>\<open>FieldName\<close>, \<^verbatim>\<open>TypeName\<close> and
  \<^verbatim>\<open>Value\<close>, and an error made outside the package (by \<^verbatim>\<open>strconv\<close>, \<^verbatim>\<open>time\<close>,
  a \<^verbatim>\<open>Decoder\<close> or a \<^verbatim>\<open>TagValueSetter\<close>), known by its message.
\<close>

datatype error =
    ErrInvalidSpecification
  | RequiredKeyMissing string
  | ParseError string string string
  | ForeignError string

text \<open>The string \<^verbatim>\<open>Error()\<close> prints for the package's own errors.\<close>

fun Error :: "error \<Rightarrow> string" where
  "Error ErrInvalidSpecification = ''specification must be a struct pointer''"
| "Error (RequiredKeyMissing key) = ''required key '' @ key @ '' missing value''"
| "Error (ParseError fieldName typeName val) =
     ''tagconfig.Process: assigning to '' @ fieldName @ '': converting '' @ [CHR 0x27] @ val
       @ [CHR 0x27] @ '' to type '' @ typeName"
| "Error (ForeignError msg) = msg"

subsection \<open>What the package calls and does not define\<close>

text \<open>
  The functions of the standard library that \<^verbatim>\<open>processField\<close> calls, the method sets of
  the program's types and the word size of the platform are parameters of the model:
  \<^item> \<open>IntSize\<close>: the bits of \<^verbatim>\<open>int\<close> and \<^verbatim>\<open>uint\<close> (32 or 64);
  \<^item> \<open>ParseInt s base bitSize\<close>, \<open>ParseUint\<close>, \<open>ParseBool\<close>, \<open>ParseFloat s bitSize\<close>
    of \<^verbatim>\<open>strconv\<close> and \<open>ParseDuration\<close> of \<^verbatim>\<open>time\<close>, each giving an error or the
    parsed 64-bit result;
  \<^item> \<open>ToFloat32\<close>: the conversion \<^verbatim>\<open>float32(x)\<close> that \<^verbatim>\<open>SetFloat\<close> makes;
  \<^item> \<open>AsDecoder t x\<close>: whether the value \<open>x\<close> of type \<open>t\<close>, boxed in an interface,
    asserts to \<^verbatim>\<open>Decoder\<close>, and then what \<^verbatim>\<open>Decode\<close> returns for a string: its error
    and the value after the call;
  \<^item> \<open>TypeString\<close>: \<^verbatim>\<open>Type.String()\<close>.
\<close>

record runtime =
  IntSize :: nat
  ParseInt :: "string \<Rightarrow> int \<Rightarrow> nat \<Rightarrow> error + 64 word"
  ParseUint :: "string \<Rightarrow> int \<Rightarrow> nat \<Rightarrow> error + 64 word"
  ParseBool :: "string \<Rightarrow> error + bool"
  ParseFloat :: "string \<Rightarrow> nat \<Rightarrow> error + 64 word"
  ParseDuration :: "string \<Rightarrow> error + 64 word"
  ToFloat32 :: "64 word \<Rightarrow> 32 word"
  AsDecoder :: "rtype \<Rightarrow> rvalue \<Rightarrow> (string \<Rightarrow> error option \<times> rvalue) option"
  TypeString :: "rtype \<Rightarrow> string"

text \<open>\<^verbatim>\<open>Type.Bits()\<close> for the kinds \<^verbatim>\<open>processField\<close> asks it of.\<close>

definition Bits :: "runtime \<Rightarrow> kind \<Rightarrow> nat" where
  "Bits rt k =
     (if k \<in> {KInt, KUint} then IntSize rt
      else if k \<in> {KInt8, KUint8} then 8
      else if k \<in> {KInt16, KUint16} then 16
      else if k \<in> {KInt32, KUint32, KFloat32} then 32
      else 64)"

text \<open>
  \<^verbatim>\<open>SetInt\<close> and \<^verbatim>\<open>SetUint\<close> store the 64-bit argument converted to the field's
  width, \<^verbatim>\<open>SetFloat\<close> converts to \<^verbatim>\<open>float32\<close> for a 32-bit field.
\<close>

definition SetInt :: "runtime \<Rightarrow> kind \<Rightarrow> 64 word \<Rightarrow> rvalue" where
  "SetInt rt k x = VInt (signed_take_bit (Bits rt k - 1) (sint x))"

definition SetUint :: "runtime \<Rightarrow> kind \<Rightarrow> 64 word \<Rightarrow> rvalue" where
  "SetUint rt k x = VUint (take_bit (Bits rt k) (unat x))"

definition SetFloat :: "runtime \<Rightarrow> kind \<Rightarrow> 64 word \<Rightarrow> rvalue" where
  "SetFloat rt k x = (if k = KFloat32 then VFloat32 (ToFloat32 rt x) else VFloat64 x)"

text \<open>
  \<^verbatim>\<open>strings.Split(s, ",")\<close>: the pieces between the commas, one more than there are
  commas, so a string without a comma (the empty string too) gives one piece.
\<close>

fun Split :: "string \<Rightarrow> string list" where
  "Split [] = [[]]"
| "Split (c # cs) =
     (if c = CHR '','' then [] # Split cs
      else (case Split cs of [] \<Rightarrow> [[c]] | piece # pieces \<Rightarrow> (c # piece) # pieces))"

subsection \<open>decoderFrom\<close>

text \<open>
  \<^verbatim>\<open>decoderFrom\<close> first asks whether the field's value is a \<^verbatim>\<open>Decoder\<close> (when the
  value may be boxed), then whether a pointer to the field is one (when the field is
  addressable).  A decoder found through the pointer writes through it: the field's
  value after the call is the pointee after the call.
\<close>

definition decoderFrom ::
  "runtime \<Rightarrow> bool \<Rightarrow> bool \<Rightarrow> rtype \<Rightarrow> rvalue \<Rightarrow> (string \<Rightarrow> error option \<times> rvalue) option" where
  "decoderFrom rt canInterface canAddr typ field =
     (case (if canInterface then AsDecoder rt typ field else None) of
        Some dec \<Rightarrow> Some dec
      | None \<Rightarrow>
          (case (if canAddr then AsDecoder rt (PtrTo [] [] typ) (VPtr field) else None) of
             Some dec \<Rightarrow>
               Some (\<lambda>s. case dec s of
                            (err, VPtr field') \<Rightarrow> (err, field')
                          | (err, _) \<Rightarrow> (err, field))
           | None \<Rightarrow> None))"

subsection \<open>processField\<close>

text \<open>
  The branches of the \<^verbatim>\<open>switch typ.Kind()\<close> for the types without components.  The
  result is the error, if any, and the value of the field afterwards.
\<close>

definition assignBasic ::
  "runtime \<Rightarrow> string \<Rightarrow> kind \<Rightarrow> string \<Rightarrow> string \<Rightarrow> rvalue \<Rightarrow> error option \<times> rvalue" where
  "assignBasic rt val k pkg nm field =
     (if k = KString then (None, VString val)
      else if k \<in> {KInt, KInt8, KInt16, KInt32, KInt64} then
        (case (if k = KInt64 \<and> pkg = ''time'' \<and> nm = ''Duration''
               then ParseDuration rt val
               else ParseInt rt val 0 (Bits rt k)) of
           Inl err \<Rightarrow> (Some err, field)
         | Inr x \<Rightarrow> (None, SetInt rt k x))
      else if k \<in> {KUint, KUint8, KUint16, KUint32, KUint64} then
        (case ParseUint rt val 0 (Bits rt k) of
           Inl err \<Rightarrow> (Some err, field)
         | Inr x \<Rightarrow> (None, SetUint rt k x))
      else if k = KBool then
        (case ParseBool rt val of
           Inl err \<Rightarrow> (Some err, field)
         | Inr b \<Rightarrow> (None, VBool b))
      else if k \<in> {KFloat32, KFloat64} then
        (case ParseFloat rt val (Bits rt k) of
           Inl err \<Rightarrow> (Some err, field)
         | Inr x \<Rightarrow> (None, SetFloat rt k x))
      else (None, field))"

text \<open>A measure of a type for the recursion through slices and embedded structs.\<close>

fun tsize :: "rtype \<Rightarrow> nat" where
  "tsize (Basic k p n) = 1"
| "tsize (SliceOf p n t) = Suc (tsize t)"
| "tsize (PtrTo p n t) = Suc (tsize t)"
| "tsize (StructOf p n fs) = Suc (sum_list (map (\<lambda>f. Suc (Suc (tsize (snd f)))) fs))"

text \<open>
  \<open>processField rt val typ field\<close> is \<^verbatim>\<open>processField(value, field)\<close> for a field of type
  \<open>typ\<close> holding \<open>field\<close>; \<open>processField_switch\<close> is its \<^verbatim>\<open>switch\<close>, entered after a
  pointer has been allocated and followed; \<open>processField_range\<close> is the loop over the
  pieces of a slice, each converted into a fresh zero element.  Every field and every
  slice element that reaches \<^verbatim>\<open>processField\<close> can be boxed and addressed: \<^verbatim>\<open>Process\<close>
  skips the fields that cannot be set, and slice elements are addressable.
\<close>

function processField :: "runtime \<Rightarrow> string \<Rightarrow> rtype \<Rightarrow> rvalue \<Rightarrow> error option \<times> rvalue"
  and processField_switch :: "runtime \<Rightarrow> string \<Rightarrow> rtype \<Rightarrow> rvalue \<Rightarrow> error option \<times> rvalue"
  and processField_range :: "runtime \<Rightarrow> rtype \<Rightarrow> string list \<Rightarrow> error + rvalue list"
where
  "processField rt val typ field =
     (case decoderFrom rt True True typ field of
        Some decoder \<Rightarrow> decoder val
      | None \<Rightarrow>
          (case typ of
             PtrTo p n t \<Rightarrow>
               (case processField_switch rt val t (case field of VPtr x \<Rightarrow> x | _ \<Rightarrow> zero t) of
                  (err, x') \<Rightarrow> (err, VPtr x'))
           | _ \<Rightarrow> processField_switch rt val typ field))"
| "processField_switch rt val (Basic k p n) field = assignBasic rt val k p n field"
| "processField_switch rt val (SliceOf p n t) field =
     (case processField_range rt t (Split val) of
        Inl err \<Rightarrow> (Some err, field)
      | Inr sl \<Rightarrow> (None, VSlice sl))"
| "processField_switch rt val (PtrTo p n t) field = (None, field)"
| "processField_switch rt val (StructOf p n fs) field = (None, field)"
| "processField_range rt t [] = Inr []"
| "processField_range rt t (piece # pieces) =
     (case processField rt piece t (zero t) of
        (Some err, x) \<Rightarrow> Inl err
      | (None, x) \<Rightarrow>
          (case processField_range rt t pieces of
             Inl err \<Rightarrow> Inl err
           | Inr xs \<Rightarrow> Inr (x # xs)))"
  by pat_completeness auto
termination
  by (relation "measures
        [\<lambda>a. case a of
               Inl (rt, val, typ, field) \<Rightarrow> 3 * tsize typ + 2
             | Inr (Inl (rt, val, typ, field)) \<Rightarrow> 3 * tsize typ + 1
             | Inr (Inr (rt, t, pieces)) \<Rightarrow> 3 * tsize t + 3,
         \<lambda>a. case a of
               Inl (rt, val, typ, field) \<Rightarrow> 0
             | Inr (Inl (rt, val, typ, field)) \<Rightarrow> 0
             | Inr (Inr (rt, t, pieces)) \<Rightarrow> length pieces]")
    auto

declare processField.simps [simp del]

subsection \<open>Sources, sinks and what is passed to them\<close>

text \<open>
  The \<^verbatim>\<open>spec interface{}\<close> argument: the nil interface, or a value boxed with its type.
\<close>

datatype interface = NilInterface | Boxed rtype rvalue

text \<open>
  \<^verbatim>\<open>reflect.ValueOf(spec).Kind()\<close>, and \<^verbatim>\<open>Elem()\<close> of a pointer: what it points to,
  or the zero \<^verbatim>\<open>Value\<close> (of kind \<^verbatim>\<open>Invalid\<close>) for a nil pointer.
\<close>

fun ValueOf_Kind :: "interface \<Rightarrow> kind" where
  "ValueOf_Kind NilInterface = KInvalid"
| "ValueOf_Kind (Boxed t x) = Kind t"

fun Elem :: "interface \<Rightarrow> interface" where
  "Elem (Boxed (PtrTo p n t) (VPtr x)) = Boxed t x"
| "Elem s = NilInterface"

text \<open>The fields' values of a struct value, and the pointer with its struct's fields replaced.\<close>

fun FieldValues :: "interface \<Rightarrow> rvalue list" where
  "FieldValues (Boxed t (VStruct xs)) = xs"
| "FieldValues s = []"

fun Elem_Type :: "interface \<Rightarrow> rtype" where
  "Elem_Type (Boxed (PtrTo p n t) x) = t"
| "Elem_Type s = Basic KInvalid [] []"

fun with_fields :: "interface \<Rightarrow> rvalue list \<Rightarrow> interface" where
  "with_fields (Boxed t (VPtr (VStruct xs))) xs' = Boxed t (VPtr (VStruct xs'))"
| "with_fields s xs' = s"

fun pointee :: "interface \<Rightarrow> rvalue \<Rightarrow> rvalue" where
  "pointee (Boxed t (VPtr x)) d = x"
| "pointee s d = d"

text \<open>
  The calls the package makes on its source or sink, in order.  A source or sink is any
  implementation of the interface, so what a method returns may depend on every call made
  before: each method takes the calls so far.
\<close>

datatype event =
    TagNameCall
  | GetCall string StructField
  | SetCall string interface StructField

record TagNameGetter =
  TagName :: "event list \<Rightarrow> string"

record TagValueGetter = TagNameGetter +
  Get :: "event list \<Rightarrow> string \<Rightarrow> StructField \<Rightarrow> string"

record TagValueSetter = TagNameGetter +
  Set :: "event list \<Rightarrow> string \<Rightarrow> interface \<Rightarrow> StructField \<Rightarrow> error option"

subsection \<open>Process\<close>

text \<open>\<^verbatim>\<open>f.CanSet()\<close> for a field of the addressable struct: the field is exported.\<close>

definition CanSet :: "FieldInfo \<Rightarrow> bool" where
  "CanSet fi = (PkgPath fi = [])"

text \<open>
  The second half of the loop body of \<^verbatim>\<open>Process\<close>, from the key to the assignment:
  the error that ends the loop (if any), the field afterwards, and the calls made.
\<close>

definition Process_key ::
  "runtime \<Rightarrow> ('a TagValueGetter_scheme) \<Rightarrow> StructField \<Rightarrow> rvalue \<Rightarrow> event list
     \<Rightarrow> error option \<times> rvalue \<times> event list" where
  "Process_key rt v sf f tr =
     (let key = Tag_Get (Tag (fst sf)) (TagName v tr);
          tr1 = tr @ [TagNameCall]
      in if key = [] then (None, f, tr1)
         else
           let val0 = Get v tr1 key sf;
               tr2 = tr1 @ [GetCall key sf];
               def = Tag_Get (Tag (fst sf)) ''default'';
               val = (if def \<noteq> [] \<and> val0 = [] then def else val0);
               req = Tag_Get (Tag (fst sf)) ''required''
           in if val = [] \<and> def = [] then
                (if req = ''true'' then (Some (RequiredKeyMissing key), f, tr2)
                 else (None, f, tr2))
              else
                (case processField rt val (snd sf) f of
                   (Some err, f') \<Rightarrow>
                     (Some (ParseError key (TypeString rt (snd sf)) val), f', tr2)
                 | (None, f') \<Rightarrow> (None, f', tr2)))"

text \<open>Measures for the recursion into embedded structs.\<close>

fun spec_size :: "interface \<Rightarrow> nat" where
  "spec_size NilInterface = 0"
| "spec_size (Boxed t x) = tsize t"

definition fields_size :: "StructField list \<Rightarrow> nat" where
  "fields_size sfs = sum_list (map (\<lambda>f. Suc (Suc (tsize (snd f)))) sfs)"

text \<open>
  \<open>Process rt v spec tr\<close> is \<^verbatim>\<open>Process(v, spec)\<close> after the calls \<open>tr\<close>: the error it
  returns, \<open>spec\<close> with the struct it points to as the call leaves it, and the calls made.
  \<open>Process_loop\<close> is the loop over the fields and their values.  An embedded struct is
  processed in place through a pointer to it, so what the recursive call did to it stays
  when the call fails; the field then goes on to its own key like every other field.
\<close>

function Process ::
    "runtime \<Rightarrow> ('a TagValueGetter_scheme) \<Rightarrow> interface \<Rightarrow> event list
       \<Rightarrow> error option \<times> interface \<times> event list"
  and Process_loop ::
    "runtime \<Rightarrow> ('a TagValueGetter_scheme) \<Rightarrow> StructField list \<Rightarrow> rvalue list \<Rightarrow> event list
       \<Rightarrow> error option \<times> rvalue list \<times> event list"
where
  "Process rt v spec tr =
     (if ValueOf_Kind spec \<noteq> KPtr then (Some ErrInvalidSpecification, spec, tr)
      else if ValueOf_Kind (Elem spec) \<noteq> KStruct then (Some ErrInvalidSpecification, spec, tr)
      else
        (case Process_loop rt v (Fields (Elem_Type spec)) (FieldValues (Elem spec)) tr of
           (err, xs, tr') \<Rightarrow> (err, with_fields spec xs, tr')))"
| "Process_loop rt v [] xs tr = (None, xs, tr)"
| "Process_loop rt v (sf # sfs) [] tr = (None, [], tr)"
| "Process_loop rt v (sf # sfs) (f # fs) tr =
     (if \<not> CanSet (fst sf) \<or> Tag_Get (Tag (fst sf)) ''ignored'' = ''true'' then
        (case Process_loop rt v sfs fs tr of (err, fs', tr') \<Rightarrow> (err, f # fs', tr'))
      else
        (case (if Anonymous (fst sf) \<and> Kind (snd sf) = KStruct
               then (case Process rt v (Boxed (PtrTo [] [] (snd sf)) (VPtr f)) tr of
                       (err, embeddedPtr, tr') \<Rightarrow> (err, pointee embeddedPtr f, tr'))
               else (None, f, tr)) of
           (Some err, f1, tr1) \<Rightarrow> (Some err, f1 # fs, tr1)
         | (None, f1, tr1) \<Rightarrow>
             (case Process_key rt v sf f1 tr1 of
                (Some err, f2, tr2) \<Rightarrow> (Some err, f2 # fs, tr2)
              | (None, f2, tr2) \<Rightarrow>
                  (case Process_loop rt v sfs fs tr2 of
                     (err, fs', tr3) \<Rightarrow> (err, f2 # fs', tr3)))))"
  by pat_completeness auto

termination
  apply (relation "measure (\<lambda>a. case a of
               Inl (rt, v, spec, tr) \<Rightarrow> spec_size spec
             | Inr (rt, v, sfs, fs, tr) \<Rightarrow> fields_size sfs)")
     apply simp
  subgoal for rt v spec tr
    apply (cases spec rule: Elem.cases)
     apply (simp_all add: fields_size_def)
    subgoal for p n t x by (cases t) simp_all
    done
   apply (simp_all add: fields_size_def)
  done

declare Process.simps [simp del]

text \<open>\<^verbatim>\<open>MustProcess\<close> panics with the error of \<^verbatim>\<open>Process\<close>, if there is one.\<close>

datatype 'a outcome = Return 'a | Panic string

definition MustProcess ::
  "runtime \<Rightarrow> ('a TagValueGetter_scheme) \<Rightarrow> interface \<Rightarrow> event list
     \<Rightarrow> unit outcome \<times> interface \<times> event list" where
  "MustProcess rt v spec tr =
     (case Process rt v spec tr of
        (Some err, spec', tr') \<Rightarrow> (Panic (Error err), spec', tr')
      | (None, spec', tr') \<Rightarrow> (Return (), spec', tr'))"

subsection \<open>PopulateExternalSource\<close>

text \<open>
  \<^verbatim>\<open>Value.Interface()\<close> panics on a value reached through an unexported field, and
  \<^verbatim>\<open>Addr()\<close> keeps that mark.  \<^verbatim>\<open>PopulateExternalSource\<close> reads the struct and
  changes nothing in it, so its result is what it returns (or that it panics) and the
  calls made.
\<close>

definition CanInterface :: "FieldInfo \<Rightarrow> bool" where
  "CanInterface fi = (PkgPath fi = [])"

definition Interface_panic :: string where
  "Interface_panic =
     ''reflect.Value.Interface: cannot return value obtained from unexported field or method''"

function PopulateExternalSource ::
    "('a TagValueSetter_scheme) \<Rightarrow> interface \<Rightarrow> event list \<Rightarrow> error option outcome \<times> event list"
  and PopulateExternalSource_loop ::
    "('a TagValueSetter_scheme) \<Rightarrow> StructField list \<Rightarrow> rvalue list \<Rightarrow> event list
       \<Rightarrow> error option outcome \<times> event list"
where
  "PopulateExternalSource v spec tr =
     (if ValueOf_Kind spec \<noteq> KPtr then (Return (Some ErrInvalidSpecification), tr)
      else if ValueOf_Kind (Elem spec) \<noteq> KStruct then (Return (Some ErrInvalidSpecification), tr)
      else PopulateExternalSource_loop v (Fields (Elem_Type spec)) (FieldValues (Elem spec)) tr)"
| "PopulateExternalSource_loop v [] fs tr = (Return None, tr)"
| "PopulateExternalSource_loop v (ft # fts) [] tr = (Return None, tr)"
| "PopulateExternalSource_loop v (ft # fts) (f # fs) tr =
     (if Anonymous (fst ft) \<and> Kind (snd ft) = KStruct then
        (if \<not> CanInterface (fst ft) then (Panic Interface_panic, tr)
         else
           (case PopulateExternalSource v (Boxed (PtrTo [] [] (snd ft)) (VPtr f)) tr of
              (Return None, tr') \<Rightarrow> PopulateExternalSource_loop v fts fs tr'
            | (Return (Some err), tr') \<Rightarrow> (Return (Some err), tr')
            | (Panic msg, tr') \<Rightarrow> (Panic msg, tr')))
      else
        (if Tag_Get (Tag (fst ft)) (TagName v tr) \<noteq> [] then
           (if \<not> CanInterface (fst ft) then (Panic Interface_panic, tr @ [TagNameCall])
            else
              (case Set v (tr @ [TagNameCall]) (Tag_Get (Tag (fst ft)) (TagName v tr))
                      (Boxed (snd ft) f) ft of
                 Some err \<Rightarrow>
                   (Return (Some err),
                    tr @ [TagNameCall,
                          SetCall (Tag_Get (Tag (fst ft)) (TagName v tr)) (Boxed (snd ft) f) ft])
               | None \<Rightarrow>
                   PopulateExternalSource_loop v fts fs
                     (tr @ [TagNameCall,
                            SetCall (Tag_Get (Tag (fst ft)) (TagName v tr)) (Boxed (snd ft) f) ft])))
         else PopulateExternalSource_loop v fts fs (tr @ [TagNameCall])))"
  by pat_completeness auto
termination
  apply (relation "measure (\<lambda>a. case a of
               Inl (v, spec, tr) \<Rightarrow> spec_size spec
             | Inr (v, fts, fs, tr) \<Rightarrow> fields_size fts)")
     apply simp
  subgoal for v spec tr
    apply (cases spec rule: Elem.cases)
     apply (simp_all add: fields_size_def)
    subgoal for p n t x by (cases t) simp_all
    done
   apply (simp_all add: fields_size_def)
  done

declare PopulateExternalSource.simps [simp del]

text \<open>
  Lines 76 to 82 of \<^verbatim>\<open>Process\<close> on their own, for stating what happens to a field
  after them: the recursion into an embedded struct, and nothing for every other field.
\<close>

definition Process_embedded ::
  "runtime \<Rightarrow> ('a TagValueGetter_scheme) \<Rightarrow> StructField \<Rightarrow> rvalue \<Rightarrow> event list
     \<Rightarrow> error option \<times> rvalue \<times> event list" where
  "Process_embedded rt v sf f tr =
     (if Anonymous (fst sf) \<and> Kind (snd sf) = KStruct
      then (case Process rt v (Boxed (PtrTo [] [] (snd sf)) (VPtr f)) tr of
              (err, embeddedPtr, tr') \<Rightarrow> (err, pointee embeddedPtr f, tr'))
      else (None, f, tr))"

subsection \<open>The types and collaborators of the package's tests\<close>

text \<open>
  \<^verbatim>\<open>MockGetter\<close> answers from a map and does not look at the field; \<^verbatim>\<open>mockSetter\<close>
  rejects every value that is not a \<^verbatim>\<open>string\<close>, and stores the others, unless empty,
  under their keys.
\<close>

definition MockGetter :: "(string \<rightharpoonup> string) \<Rightarrow> TagValueGetter" where
  "MockGetter Values =
     \<lparr>TagName = (\<lambda>tr. ''emaNgaT''),
      Get = (\<lambda>tr key t. case Values key of None \<Rightarrow> [] | Some s \<Rightarrow> s)\<rparr>"

definition string_type :: rtype where "string_type = Basic KString [] ''string''"

text \<open>The type assertion \<^verbatim>\<open>value.(string)\<close>.\<close>

definition as_string :: "interface \<Rightarrow> string option" where
  "as_string val =
     (case val of
        NilInterface \<Rightarrow> None
      | Boxed t x \<Rightarrow> if t = string_type then (case x of VString s \<Rightarrow> Some s | _ \<Rightarrow> None) else None)"

definition mockSetter :: TagValueSetter where
  "mockSetter =
     \<lparr>TagName = (\<lambda>tr. ''bl''),
      Set = (\<lambda>tr key val t.
               case as_string val of
                 None \<Rightarrow> Some (ForeignError ''Received a non string'')
               | Some s \<Rightarrow> None)\<rparr>"

text \<open>The map \<^verbatim>\<open>mem\<close> of a \<^verbatim>\<open>mockSetter\<close> that started empty, after the calls made on it.\<close>

definition mockSetter_store :: "event \<Rightarrow> (string \<rightharpoonup> string) \<Rightarrow> (string \<rightharpoonup> string)" where
  "mockSetter_store e mem =
     (case e of
        SetCall key val t \<Rightarrow>
          (case as_string val of
             None \<Rightarrow> mem
           | Some s \<Rightarrow> if s \<noteq> [] then mem(key \<mapsto> s) else mem)
      | _ \<Rightarrow> mem)"

definition mockSetter_mem :: "event list \<Rightarrow> (string \<rightharpoonup> string)" where
  "mockSetter_mem tr = fold mockSetter_store tr Map.empty"

definition int_type :: rtype where "int_type = Basic KInt [] ''int''"
definition bool_type :: rtype where "bool_type = Basic KBool [] ''bool''"
definition Duration_type :: rtype where "Duration_type = Basic KInt64 ''time'' ''Duration''"

definition named_field :: "string \<Rightarrow> StructTag \<Rightarrow> rtype \<Rightarrow> StructField" where
  "named_field nm tg t = (\<lparr>Name = nm, PkgPath = [], Tag = tg, Anonymous = False\<rparr>, t)"

definition embedded_field :: "string \<Rightarrow> StructTag \<Rightarrow> rtype \<Rightarrow> StructField" where
  "embedded_field nm tg t = (\<lparr>Name = nm, PkgPath = [], Tag = tg, Anonymous = True\<rparr>, t)"

definition Specification :: rtype where
  "Specification = StructOf ''github.com/Experticity/tagconfig_test'' ''Specification''
     [named_field ''SystemsCrashCount'' [(''emaNgaT'', ''crash.count''), (''required'', ''true'')] int_type,
      named_field ''Handle'' [(''emaNgaT'', ''handle''), (''default'', ''zero.cool'')] string_type]"

definition EmbeddedSpecification :: rtype where
  "EmbeddedSpecification = StructOf ''github.com/Experticity/tagconfig_test'' ''EmbeddedSpecification''
     [named_field ''Relationship'' [(''emaNgaT'', ''embed.relation.ship'')] string_type]"

definition Ignored :: rtype where
  "Ignored = StructOf ''github.com/Experticity/tagconfig_test'' ''Ignored''
     [named_field ''Name'' [(''emaNgaT'', ''name''), (''default'', ''nombre'')] string_type]"

definition SpecificationWithEmbedded :: rtype where
  "SpecificationWithEmbedded = StructOf ''github.com/Experticity/tagconfig_test'' ''SpecificationWithEmbedded''
     [named_field ''Relationship'' [(''emaNgaT'', ''relation.ship''), (''default'', ''parent'')] string_type,
      embedded_field ''EmbeddedSpecification'' [] EmbeddedSpecification,
      embedded_field ''Ignored'' [(''ignored'', ''true'')] Ignored]"

definition Meta :: rtype where
  "Meta = StructOf ''github.com/Experticity/tagconfig_test'' ''Meta''
     [named_field ''Activity'' [(''bl'', ''meta.activity'')] string_type,
      named_field ''Item'' [(''bl'', ''meta.item'')] string_type,
      named_field ''Animal'' [] string_type]"

definition person :: rtype where
  "person = StructOf ''github.com/Experticity/tagconfig_test'' ''person''
     [named_field ''Name'' [(''bl'', ''name'')] string_type,
      named_field ''Age'' [(''bl'', ''age'')] string_type,
      embedded_field ''Meta'' [] Meta]"

text \<open>A sink that takes every value.\<close>

definition acceptingSetter :: TagValueSetter where
  "acceptingSetter = \<lparr>TagName = (\<lambda>tr. ''bl''), Set = (\<lambda>tr key val t. None)\<rparr>"

text \<open>\<^verbatim>\<open>&T{...}\<close>: a pointer to a struct of type \<open>t\<close> with the given fields, boxed.\<close>

definition address_of :: "rtype \<Rightarrow> rvalue list \<Rightarrow> interface" where
  "address_of t xs = Boxed (PtrTo [] [] t) (VPtr (VStruct xs))"

text \<open>
  A runtime for the examples.  Its \<open>ParseInt\<close> and \<open>ParseUint\<close> read the plain decimal
  literals that fit the bit size, its \<open>ParseBool\<close> the literals of \<^verbatim>\<open>strconv.ParseBool\<close>,
  its \<open>ParseDuration\<close> a whole number of seconds (\<^verbatim>\<open>"5s"\<close>); every other literal,
  and every float literal, is refused (no example has one that the library would
  accept).  No type of the examples has a \<^verbatim>\<open>Decode\<close> method.  Its \<open>TypeString\<close>
  writes a named type as the last element of its package path, a dot and its name.
\<close>

fun digits :: "string \<Rightarrow> nat \<Rightarrow> nat option" where
  "digits [] acc = Some acc"
| "digits (c # cs) acc =
     (if 48 \<le> (of_char c :: nat) \<and> (of_char c :: nat) \<le> 57
      then digits cs (10 * acc + (of_char c - 48)) else None)"

definition decimal :: "string \<Rightarrow> nat option" where
  "decimal s = (if s = [] then None else digits s 0)"

definition example_ParseInt :: "string \<Rightarrow> int \<Rightarrow> nat \<Rightarrow> error + 64 word" where
  "example_ParseInt s base bitSize =
     (case decimal s of
        Some n \<Rightarrow> if n < 2 ^ (bitSize - 1) then Inr (of_nat n)
                  else Inl (ForeignError ''strconv.ParseInt: value out of range'')
      | None \<Rightarrow> Inl (ForeignError ''strconv.ParseInt: invalid syntax''))"

definition example_ParseUint :: "string \<Rightarrow> int \<Rightarrow> nat \<Rightarrow> error + 64 word" where
  "example_ParseUint s base bitSize =
     (case decimal s of
        Some n \<Rightarrow> if n < 2 ^ bitSize then Inr (of_nat n)
                  else Inl (ForeignError ''strconv.ParseUint: value out of range'')
      | None \<Rightarrow> Inl (ForeignError ''strconv.ParseUint: invalid syntax''))"

definition example_ParseBool :: "string \<Rightarrow> error + bool" where
  "example_ParseBool s =
     (if s \<in> {''1'', ''t'', ''T'', ''TRUE'', ''true'', ''True''} then Inr True
      else if s \<in> {''0'', ''f'', ''F'', ''FALSE'', ''false'', ''False''} then Inr False
      else Inl (ForeignError ''strconv.ParseBool: invalid syntax''))"

definition example_ParseDuration :: "string \<Rightarrow> error + 64 word" where
  "example_ParseDuration s =
     (case rev s of
        c # ds \<Rightarrow>
          (case (if c = CHR ''s'' then decimal (rev ds) else None) of
             Some n \<Rightarrow> if n < 2 ^ 33 then Inr (of_nat (n * 1000000000))
                       else Inl (ForeignError ''time: invalid duration'')
           | None \<Rightarrow> Inl (ForeignError ''time: invalid duration''))
      | [] \<Rightarrow> Inl (ForeignError ''time: invalid duration''))"

definition qualified_name :: "string \<Rightarrow> string \<Rightarrow> string" where
  "qualified_name p n =
     (if p = [] then n else rev (takeWhile (\<lambda>c. c \<noteq> CHR ''/'') (rev p)) @ ''.'' @ n)"

fun example_TypeString :: "rtype \<Rightarrow> string" where
  "example_TypeString (Basic k p n) = qualified_name p n"
| "example_TypeString (SliceOf p n t) =
     (if n = [] then ''[]'' @ example_TypeString t else qualified_name p n)"
| "example_TypeString (PtrTo p n t) =
     (if n = [] then ''*'' @ example_TypeString t else qualified_name p n)"
| "example_TypeString (StructOf p n fs) = qualified_name p n"

definition example_runtime :: runtime where
  "example_runtime =
     \<lparr>IntSize = 64,
      ParseInt = example_ParseInt,
      ParseUint = example_ParseUint,
      ParseBool = example_ParseBool,
      ParseFloat = (\<lambda>s bitSize. Inl (ForeignError ''strconv.ParseFloat: invalid syntax'')),
      ParseDuration = example_ParseDuration,
      ToFloat32 = (\<lambda>x. 0),
      AsDecoder = (\<lambda>t x. None),
      TypeString = example_TypeString\<rparr>"

text \<open>
  Four more types for the examples: an embedded struct that carries a tag of its own, an
  embedded pointer to a struct, and two structs whose fields carry a key under both tag
  names, the second with a field marked \<^verbatim>\<open>ignored\<close> and an unexported field.
\<close>

definition TaggedEmbedding :: rtype where
  "TaggedEmbedding = StructOf ''main'' ''TaggedEmbedding''
     [embedded_field ''EmbeddedSpecification'' [(''emaNgaT'', ''embedded''), (''required'', ''true'')]
        EmbeddedSpecification]"

definition PointerEmbedding :: rtype where
  "PointerEmbedding = StructOf ''main'' ''PointerEmbedding''
     [embedded_field ''EmbeddedSpecification'' [(''bl'', ''embedded'')]
        (PtrTo [] [] EmbeddedSpecification),
      named_field ''Name'' [(''emaNgaT'', ''name''), (''bl'', ''name'')] string_type]"

definition Account :: rtype where
  "Account = StructOf ''main'' ''Account''
     [named_field ''Owner'' [(''emaNgaT'', ''owner''), (''bl'', ''owner'')] string_type,
      named_field ''Limit'' [(''emaNgaT'', ''limit''), (''bl'', ''limit'')] int_type]"

definition Credentials :: rtype where
  "Credentials = StructOf ''main'' ''Credentials''
     [named_field ''User'' [(''emaNgaT'', ''user''), (''bl'', ''user'')] string_type,
      named_field ''Password''
        [(''emaNgaT'', ''password''), (''bl'', ''password''), (''ignored'', ''true'')] string_type,
      (\<lparr>Name = ''token'', PkgPath = ''main'',
        Tag = [(''emaNgaT'', ''token''), (''bl'', ''token'')], Anonymous = False\<rparr>, string_type)]"

subsection \<open>Notions the properties are stated with\<close>

text \<open>
  The kinds that have a branch in the \<^verbatim>\<open>switch\<close> of \<^verbatim>\<open>processField\<close>, and the pieces
  of a split string put together again with commas.
\<close>

definition supported_kinds :: "kind set" where
  "supported_kinds =
     {KString, KInt, KInt8, KInt16, KInt32, KInt64, KUint, KUint8, KUint16, KUint32, KUint64,
      KBool, KFloat32, KFloat64, KSlice}"

fun join :: "string list \<Rightarrow> string" where
  "join [] = []"
| "join [p] = p"
| "join (p # q # ps) = p @ CHR '','' # join (q # ps)"

section \<open>Properties of processField\<close>

subsection \<open>Splitting\<close>

lemma Split_length: "length (Split s) = Suc (length (filter (\<lambda>c. c = CHR '','') s))"
  by (induction s) (auto split: list.splits)

lemma Split_not_Nil: "Split s \<noteq> []"
  by (induction s) (auto split: list.splits)

lemma Split_no_comma: "piece \<in> set (Split s) \<Longrightarrow> CHR '','' \<notin> set piece"
  by (induction s arbitrary: piece) (auto split: list.splits if_splits)

lemma join_Cons: "join ((c # p) # ps) = c # join (p # ps)"
  by (cases ps) simp_all

lemma Split_join: "join (Split s) = s"
  by (induction s) (auto split: list.splits simp: Split_not_Nil join_Cons)

subsection \<open>Slices\<close>

lemma processField_range_all:
  "\<forall>s \<in> set pieces. fst (processField rt s t (zero t)) = None \<Longrightarrow>
   processField_range rt t pieces = Inr (map (\<lambda>s. snd (processField rt s t (zero t))) pieces)"
  by (induction pieces) (auto split: prod.splits option.splits sum.splits)

lemma processField_range_first:
  "i < length pieces \<Longrightarrow>
   \<forall>j<i. fst (processField rt (pieces ! j) t (zero t)) = None \<Longrightarrow>
   fst (processField rt (pieces ! i) t (zero t)) = Some err \<Longrightarrow>
   processField_range rt t pieces = Inl err"
proof (induction pieces arbitrary: i)
  case Nil
  then show ?case by simp
next
  case (Cons s pieces)
  show ?case
  proof (cases i)
    case 0
    with Cons.prems show ?thesis
      by (auto split: prod.splits option.splits sum.splits)
  next
    case (Suc k)
    with Cons.prems have k: "k < length pieces"
      and before: "\<forall>j<k. fst (processField rt (pieces ! j) t (zero t)) = None"
      and at: "fst (processField rt (pieces ! k) t (zero t)) = Some err"
      and hd: "fst (processField rt s t (zero t)) = None"
      by auto
    from Cons.IH [OF k before at] hd show ?thesis
      by (auto split: prod.splits option.splits sum.splits)
  qed
qed

lemma example_no_decoder: "decoderFrom example_runtime True True t f = None"
  by (simp add: decoderFrom_def example_runtime_def)

text \<open>
  C5.  A field of slice type whose type has no \<^verbatim>\<open>Decoder\<close>: the string is split at
  every comma (\<open>Split_length\<close>, \<open>Split_no_comma\<close> and \<open>Split_join\<close> say that nothing
  escapes a comma), and every piece is converted by \<^verbatim>\<open>processField\<close> itself into a fresh
  zero element.  If every piece converts, the field becomes a new slice of the converted
  pieces, as many as there are pieces.  If the piece at \<open>i\<close> is the first that fails,
  \<^verbatim>\<open>processField\<close> returns that piece's error and the field keeps the value it had.
\<close>

theorem processField_slice:
  assumes "decoderFrom rt True True (SliceOf p n t) f = None"
  shows "((\<forall>s \<in> set (Split val). fst (processField rt s t (zero t)) = None) \<longrightarrow>
            processField rt val (SliceOf p n t) f =
              (None, VSlice (map (\<lambda>s. snd (processField rt s t (zero t))) (Split val)))
            \<and> length (map (\<lambda>s. snd (processField rt s t (zero t))) (Split val))
                = length (Split val))
       \<and> (\<forall>i err. i < length (Split val)
              \<and> (\<forall>j<i. fst (processField rt (Split val ! j) t (zero t)) = None)
              \<and> fst (processField rt (Split val ! i) t (zero t)) = Some err \<longrightarrow>
            processField rt val (SliceOf p n t) f = (Some err, f))"
  using assms
  by (auto simp: processField.simps processField_range_all processField_range_first)

theorem processField_slice_witness:
  "processField example_runtime ''1,2,3'' (SliceOf [] [] int_type) VNil
     = (None, VSlice [VInt 1, VInt 2, VInt 3])
   \<and> processField example_runtime ''1,x,3'' (SliceOf [] [] int_type) (VSlice [VInt 7])
     = (Some (ForeignError ''strconv.ParseInt: invalid syntax''), VSlice [VInt 7])"
proof -
  have el: "processField example_runtime s int_type (zero int_type)
              = (case example_ParseInt s 0 64 of
                   Inl err \<Rightarrow> (Some err, VInt 0)
                 | Inr x \<Rightarrow> (None, VInt (signed_take_bit 63 (sint x))))" for s
    by (simp add: processField.simps decoderFrom_def int_type_def assignBasic_def SetInt_def
        Bits_def example_runtime_def split: sum.splits)
  have ok: "\<forall>s \<in> set (Split ''1,2,3''). fst (processField example_runtime s int_type (zero int_type)) = None"
    by (simp add: el example_ParseInt_def decimal_def)
  have bad: "1 < length (Split ''1,x,3'')
      \<and> (\<forall>j<1. fst (processField example_runtime (Split ''1,x,3'' ! j) int_type (zero int_type)) = None)
      \<and> fst (processField example_runtime (Split ''1,x,3'' ! 1) int_type (zero int_type))
          = Some (ForeignError ''strconv.ParseInt: invalid syntax'')"
    by (simp add: el example_ParseInt_def decimal_def)
  from processField_slice [OF example_no_decoder,
      where p = "[]" and n = "[]" and t = int_type and f = VNil and val = "''1,2,3''"] ok
  have 1: "processField example_runtime ''1,2,3'' (SliceOf [] [] int_type) VNil
     = (None, VSlice [VInt 1, VInt 2, VInt 3])"
    by (simp add: el example_ParseInt_def decimal_def)
  from processField_slice [OF example_no_decoder,
      where p = "[]" and n = "[]" and t = int_type and f = "VSlice [VInt 7]" and val = "''1,x,3''"] bad
  have 2: "processField example_runtime ''1,x,3'' (SliceOf [] [] int_type) (VSlice [VInt 7])
     = (Some (ForeignError ''strconv.ParseInt: invalid syntax''), VSlice [VInt 7])"
    by blast
  from 1 2 show ?thesis by simp
qed

subsection \<open>Signed integers and durations\<close>

lemma sint64_fits: "signed_take_bit 63 (sint (x :: 64 word)) = sint x"
  using sint_ge [of x] sint_lt [of x] by (simp add: signed_take_bit_int_eq_self)

text \<open>
  C8.  A field of a signed integer kind whose type has no \<^verbatim>\<open>Decoder\<close>: the string goes
  to \<^verbatim>\<open>strconv.ParseInt\<close> with base 0 (the base is read off the literal's prefix) and
  the bit size of the field's kind, and the field is set to the result at that width;
  except that a field of kind \<^verbatim>\<open>Int64\<close> whose type is \<^verbatim>\<open>time.Duration\<close> goes to
  \<^verbatim>\<open>time.ParseDuration\<close> and is set to the duration as an integer.  A failed parse is
  returned and leaves the field as it was.
\<close>

theorem processField_signed:
  assumes "k \<in> {KInt, KInt8, KInt16, KInt32, KInt64}"
    and "decoderFrom rt True True (Basic k pkg nm) f = None"
  shows "processField rt val (Basic k pkg nm) f =
     (if k = KInt64 \<and> pkg = ''time'' \<and> nm = ''Duration'' then
        (case ParseDuration rt val of
           Inl err \<Rightarrow> (Some err, f)
         | Inr d \<Rightarrow> (None, VInt (sint d)))
      else
        (case ParseInt rt val 0 (Bits rt k) of
           Inl err \<Rightarrow> (Some err, f)
         | Inr x \<Rightarrow> (None, VInt (signed_take_bit (Bits rt k - 1) (sint x)))))"
  using assms
  by (auto simp: processField.simps assignBasic_def SetInt_def Bits_def sint64_fits
      split: sum.splits)

theorem processField_signed_witness:
  "processField example_runtime ''1507'' int_type (VInt 0) = (None, VInt 1507)
   \<and> processField example_runtime ''5s'' Duration_type (VInt 0) = (None, VInt 5000000000)
   \<and> processField example_runtime ''5s'' (Basic KInt64 [] ''int64'') (VInt 3)
        = (Some (ForeignError ''strconv.ParseInt: invalid syntax''), VInt 3)"
proof -
  have 1: "KInt \<in> {KInt, KInt8, KInt16, KInt32, KInt64}" by simp
  have 2: "KInt64 \<in> {KInt, KInt8, KInt16, KInt32, KInt64}" by simp
  show ?thesis
    using processField_signed [OF 1 example_no_decoder,
        where pkg = "[]" and nm = "''int''" and f = "VInt 0" and val = "''1507''"]
      processField_signed [OF 2 example_no_decoder,
        where pkg = "''time''" and nm = "''Duration''" and f = "VInt 0" and val = "''5s''"]
      processField_signed [OF 2 example_no_decoder,
        where pkg = "[]" and nm = "''int64''" and f = "VInt 3" and val = "''5s''"]
    by (simp add: int_type_def Duration_type_def example_runtime_def example_ParseInt_def
        example_ParseDuration_def decimal_def Bits_def)
qed

subsection \<open>Kinds without a branch\<close>

text \<open>
  C9, as the code has it.  \<^verbatim>\<open>processField\<close> allocates a nil pointer and follows it before
  it looks at the kind.  For a field without a \<^verbatim>\<open>Decoder\<close>: if its kind is neither a
  pointer nor a kind with a branch, nothing changes and no error is returned; if it is a
  pointer to a type whose kind has no branch, no error is returned and what the pointer
  points to is unchanged, but a nil pointer has become a pointer to a fresh zero value.
\<close>

theorem processField_unsupported:
  assumes "decoderFrom rt True True ty f = None"
  shows "(Kind ty \<notin> insert KPtr supported_kinds \<longrightarrow> processField rt val ty f = (None, f))
       \<and> (\<forall>p n t. ty = PtrTo p n t \<and> Kind t \<notin> supported_kinds \<longrightarrow>
            processField rt val ty f = (None, VPtr (case f of VPtr x \<Rightarrow> x | _ \<Rightarrow> zero t)))"
proof -
  have sw: "Kind t \<notin> supported_kinds \<Longrightarrow> processField_switch rt val t x = (None, x)" for t x
    by (cases t) (auto simp: supported_kinds_def assignBasic_def)
  show ?thesis
  proof (cases ty)
    case (PtrTo p n t)
    with assms show ?thesis by (simp add: processField.simps sw)
  qed (use assms in \<open>auto simp: processField.simps supported_kinds_def assignBasic_def\<close>)
qed

theorem processField_unsupported_witness:
  "processField example_runtime ''x'' (Basic KMap [] []) (VOther 5) = (None, VOther 5)
   \<and> processField example_runtime ''x'' (PtrTo [] [] Ignored) (VPtr (VStruct [VString ''a'']))
        = (None, VPtr (VStruct [VString ''a'']))
   \<and> processField example_runtime ''x'' (PtrTo [] [] Ignored) VNil = (None, VPtr (VStruct [VString []]))"
  using processField_unsupported [OF example_no_decoder,
      where ty = "Basic KMap [] []" and val = "''x''" and f = "VOther 5"]
    processField_unsupported [OF example_no_decoder,
      where ty = "PtrTo [] [] Ignored" and val = "''x''" and f = "VPtr (VStruct [VString ''a''])"]
    processField_unsupported [OF example_no_decoder,
      where ty = "PtrTo [] [] Ignored" and val = "''x''" and f = VNil]
  by (simp add: supported_kinds_def Ignored_def named_field_def string_type_def)

text \<open>
  The claim as it was stated fails on a nil pointer to a struct: neither the pointer kind
  nor the struct kind has a branch, the type has no \<^verbatim>\<open>Decoder\<close>, and the field does
  not keep its value.
\<close>

theorem unsupported_kind_counterexample:
  "Kind (PtrTo [] [] Ignored) \<notin> supported_kinds
   \<and> Kind Ignored \<notin> supported_kinds
   \<and> decoderFrom example_runtime True True (PtrTo [] [] Ignored) VNil = None
   \<and> processField example_runtime ''x'' (PtrTo [] [] Ignored) VNil \<noteq> (None, VNil)"
  by (simp add: supported_kinds_def Ignored_def named_field_def string_type_def decoderFrom_def
      example_runtime_def processField.simps)

section \<open>Properties of Process and PopulateExternalSource\<close>

subsection \<open>The loops, field by field\<close>

lemma Process_loop_step:
  "Process_loop rt v (sf # sfs) (f # fs) tr =
     (if \<not> CanSet (fst sf) \<or> Tag_Get (Tag (fst sf)) ''ignored'' = ''true'' then
        (case Process_loop rt v sfs fs tr of (err, fs', tr') \<Rightarrow> (err, f # fs', tr'))
      else
        (case Process_embedded rt v sf f tr of
           (Some err, f1, tr1) \<Rightarrow> (Some err, f1 # fs, tr1)
         | (None, f1, tr1) \<Rightarrow>
             (case Process_key rt v sf f1 tr1 of
                (Some err, f2, tr2) \<Rightarrow> (Some err, f2 # fs, tr2)
              | (None, f2, tr2) \<Rightarrow>
                  (case Process_loop rt v sfs fs tr2 of
                     (err, fs', tr3) \<Rightarrow> (err, f2 # fs', tr3)))))"
  by (simp add: Process_embedded_def)

declare Process_loop.simps(3) [simp del]

lemma Process_loop_append:
  "length sfs = length fs \<Longrightarrow>
   Process_loop rt v (sfs @ sfs') (fs @ fs') tr =
     (case Process_loop rt v sfs fs tr of
        (Some err, fs1, tr1) \<Rightarrow> (Some err, fs1 @ fs', tr1)
      | (None, fs1, tr1) \<Rightarrow>
          (case Process_loop rt v sfs' fs' tr1 of
             (err, fs2, tr2) \<Rightarrow> (err, fs1 @ fs2, tr2)))"
proof (induction sfs arbitrary: fs tr)
  case Nil
  then show ?case by (simp split: prod.splits)
next
  case (Cons sf sfs)
  then obtain f fs0 where fs: "fs = f # fs0" and len: "length sfs = length fs0"
    by (cases fs) auto
  show ?case
    unfolding fs append_Cons Process_loop_step
    by (simp add: Cons.IH [OF len] split: prod.splits option.splits)
qed

lemma Process_key_policy:
  assumes "Tag_Get (Tag (fst sf)) (TagName v tr) = key" "key \<noteq> []"
    and "Get v (tr @ [TagNameCall]) key sf = val"
    and "Tag_Get (Tag (fst sf)) ''default'' = def"
    and "Tag_Get (Tag (fst sf)) ''required'' = req"
  shows "Process_key rt v sf f tr =
     (if val \<noteq> [] \<or> def \<noteq> [] then
        (case processField rt (if val \<noteq> [] then val else def) (snd sf) f of
           (Some err, f') \<Rightarrow>
             (Some (ParseError key (TypeString rt (snd sf)) (if val \<noteq> [] then val else def)), f',
              tr @ [TagNameCall, GetCall key sf])
         | (None, f') \<Rightarrow> (None, f', tr @ [TagNameCall, GetCall key sf]))
      else if req = ''true'' then (Some (RequiredKeyMissing key), f, tr @ [TagNameCall, GetCall key sf])
      else (None, f, tr @ [TagNameCall, GetCall key sf]))"
  using assms by (auto simp: Process_key_def Let_def)


lemma Process_struct:
  "Process rt v (Boxed (PtrTo pp pn (StructOf sp sn sfs)) (VPtr (VStruct fs))) tr =
     (case Process_loop rt v sfs fs tr of
        (err, fs', tr') \<Rightarrow> (err, Boxed (PtrTo pp pn (StructOf sp sn sfs)) (VPtr (VStruct fs')), tr'))"
  by (simp add: Process.simps)

lemma Process_loop_at:
  assumes "length pre = length xs"
    and "Process_loop rt v pre xs tr = (None, xs', tr0)"
    and "CanSet (fst sf)" and "Tag_Get (Tag (fst sf)) ''ignored'' \<noteq> ''true''"
    and "Process_embedded rt v sf f tr0 = (None, f1, tr1)"
  shows "Process_loop rt v (pre @ sf # post) (xs @ f # ys) tr =
     (case Process_key rt v sf f1 tr1 of
        (Some err, f2, tr2) \<Rightarrow> (Some err, xs' @ f2 # ys, tr2)
      | (None, f2, tr2) \<Rightarrow>
          (case Process_loop rt v post ys tr2 of
             (err, ys', tr3) \<Rightarrow> (err, xs' @ f2 # ys', tr3)))"
  using assms
  by (simp add: Process_loop_append Process_loop_step split: prod.splits option.splits)

lemma PopulateExternalSource_struct:
  "PopulateExternalSource w (Boxed (PtrTo pp pn (StructOf sp sn sfs)) (VPtr (VStruct fs))) tr =
     PopulateExternalSource_loop w sfs fs tr"
  by (simp add: PopulateExternalSource.simps)

lemma PopulateExternalSource_loop_append:
  "length fts = length fs \<Longrightarrow>
   PopulateExternalSource_loop w (fts @ fts') (fs @ fs') tr =
     (case PopulateExternalSource_loop w fts fs tr of
        (Return None, tr') \<Rightarrow> PopulateExternalSource_loop w fts' fs' tr'
      | (Return (Some err), tr') \<Rightarrow> (Return (Some err), tr')
      | (Panic msg, tr') \<Rightarrow> (Panic msg, tr'))"
proof (induction fts arbitrary: fs tr)
  case Nil
  then show ?case by simp
next
  case (Cons ft fts)
  then obtain f fs0 where fs: "fs = f # fs0" and len: "length fts = length fs0"
    by (cases fs) auto
  show ?case
    unfolding fs append_Cons
    by (simp add: Cons.IH [OF len] split: prod.splits option.splits outcome.splits)
qed


text \<open>Unfolding the examples.\<close>

lemmas example_defs =
  Specification_def SpecificationWithEmbedded_def EmbeddedSpecification_def Ignored_def
  Meta_def person_def TaggedEmbedding_def PointerEmbedding_def Account_def Credentials_def
  named_field_def embedded_field_def string_type_def int_type_def
  bool_type_def address_of_def MockGetter_def mockSetter_def acceptingSetter_def

lemmas example_eval =
  Process_loop.simps Process_key_def Process_embedded_def CanSet_def CanInterface_def Tag_Get_def
  processField.simps decoderFrom_def assignBasic_def SetInt_def Bits_def example_runtime_def
  example_ParseInt_def decimal_def as_string_def qualified_name_def Let_def

subsection \<open>Default and required\<close>

text \<open>
  C1.  Take a field of the struct that \<^verbatim>\<open>Process\<close> reaches (the fields before it were
  processed without error), that can be set and is not marked \<^verbatim>\<open>ignored\<close>, whose
  embedded struct (if it is one) was processed without error, and whose key under the
  source's tag name is not empty.  With \<open>val\<close> the string \<^verbatim>\<open>Get\<close> returns for the key:
  \<^item> if \<open>val\<close> is not empty it is converted into the field;
  \<^item> if \<open>val\<close> is empty and the \<^verbatim>\<open>default\<close> annotation is not, the default is converted;
  \<^item> if both are empty and \<^verbatim>\<open>required\<close> is \<^verbatim>\<open>"true"\<close>, \<^verbatim>\<open>Process\<close> returns the error
    that names the key, and the field is as it was;
  \<^item> if both are empty and \<^verbatim>\<open>required\<close> is anything else, the field is as it was and the
    loop goes on with the fields after it.
  A conversion that succeeds goes on with the fields after it; one that fails ends
  \<^verbatim>\<open>Process\<close>.
\<close>

theorem Process_default_required_policy:
  assumes "length pre = length xs"
    and "Process_loop rt v pre xs tr = (None, xs', tr0)"
    and "CanSet (fst sf)" and "Tag_Get (Tag (fst sf)) ''ignored'' \<noteq> ''true''"
    and "Process_embedded rt v sf f tr0 = (None, f1, tr1)"
    and "Tag_Get (Tag (fst sf)) (TagName v tr1) = key" and "key \<noteq> []"
    and "Get v (tr1 @ [TagNameCall]) key sf = val"
    and "Tag_Get (Tag (fst sf)) ''default'' = def"
    and "Tag_Get (Tag (fst sf)) ''required'' = req"
    and "T = StructOf sp sn (pre @ sf # post)"
    and "tr2 = tr1 @ [TagNameCall, GetCall key sf]"
  shows "Process rt v (Boxed (PtrTo pp pn T) (VPtr (VStruct (xs @ f # ys)))) tr =
     (if val \<noteq> [] \<or> def \<noteq> [] then
        (case processField rt (if val \<noteq> [] then val else def) (snd sf) f1 of
           (Some err, f2) \<Rightarrow>
             (Some (ParseError key (TypeString rt (snd sf)) (if val \<noteq> [] then val else def)),
              Boxed (PtrTo pp pn T) (VPtr (VStruct (xs' @ f2 # ys))), tr2)
         | (None, f2) \<Rightarrow>
             (case Process_loop rt v post ys tr2 of
                (err, ys', tr3) \<Rightarrow>
                  (err, Boxed (PtrTo pp pn T) (VPtr (VStruct (xs' @ f2 # ys'))), tr3)))
      else if req = ''true'' then
        (Some (RequiredKeyMissing key), Boxed (PtrTo pp pn T) (VPtr (VStruct (xs' @ f1 # ys))), tr2)
      else
        (case Process_loop rt v post ys tr2 of
           (err, ys', tr3) \<Rightarrow>
             (err, Boxed (PtrTo pp pn T) (VPtr (VStruct (xs' @ f1 # ys'))), tr3)))"
proof -
  note at = Process_loop_at [OF assms(1-5), of post ys]
  note key = Process_key_policy [OF assms(6-10), of rt f1]
  show ?thesis
    unfolding \<open>T = _\<close> \<open>tr2 = _\<close> Process_struct at key
    by (simp split: prod.splits option.splits)
qed

theorem Process_default_required_policy_witness:
  "Process example_runtime (MockGetter [''crash.count'' \<mapsto> ''1507''])
      (address_of Specification [VInt 0, VString []]) []
    = (None, address_of Specification [VInt 1507, VString ''zero.cool''],
       [TagNameCall, GetCall ''crash.count'' (Fields Specification ! 0),
        TagNameCall, GetCall ''handle'' (Fields Specification ! 1)])
   \<and> Process example_runtime (MockGetter Map.empty)
      (address_of Specification [VInt 0, VString []]) []
    = (Some (RequiredKeyMissing ''crash.count''), address_of Specification [VInt 0, VString []],
       [TagNameCall, GetCall ''crash.count'' (Fields Specification ! 0)])"
proof -
  let ?crash = "named_field ''SystemsCrashCount'' [(''emaNgaT'', ''crash.count''), (''required'', ''true'')] int_type"
  let ?handle = "named_field ''Handle'' [(''emaNgaT'', ''handle''), (''default'', ''zero.cool'')] string_type"
  let ?v = "MockGetter [''crash.count'' \<mapsto> ''1507'']"
  have pre: "Process_loop example_runtime ?v [?crash] [VInt 0] []
      = (None, [VInt 1507], [TagNameCall, GetCall ''crash.count'' ?crash])"
    by (simp add: example_defs example_eval)
  show ?thesis
    using Process_default_required_policy [where rt = example_runtime and v = ?v
        and pre = "[?crash]" and xs = "[VInt 0]" and tr = "[]" and sf = ?handle and f = "VString []"
        and post = "[]" and ys = "[]" and sp = "''github.com/Experticity/tagconfig_test''" and sn = "''Specification''"
        and pp = "[]" and pn = "[]", OF _ pre]
      Process_default_required_policy [where rt = example_runtime and v = "MockGetter Map.empty"
        and pre = "[]" and xs = "[]" and tr = "[]" and sf = ?crash and f = "VInt 0"
        and post = "[?handle]" and ys = "[VString []]" and sp = "''github.com/Experticity/tagconfig_test''"
        and sn = "''Specification''" and pp = "[]" and pn = "[]"]
    by (simp add: example_defs example_eval)
qed

subsection \<open>The conversion error\<close>

text \<open>
  C7, as the code has it.  When \<^verbatim>\<open>processField\<close> fails on the string tried for a field
  (the value from \<^verbatim>\<open>Get\<close>, or the default when that is empty), \<^verbatim>\<open>Process\<close> returns a
  \<^verbatim>\<open>ParseError\<close> whose \<^verbatim>\<open>FieldName\<close> is the field's lookup key, whose \<^verbatim>\<open>TypeName\<close>
  is the string of the field's type and whose \<^verbatim>\<open>Value\<close> is the string tried.  This holds
  for every failure of \<^verbatim>\<open>processField\<close>, so also when no \<^verbatim>\<open>Decoder\<close> is involved.
\<close>

theorem Process_conversion_error:
  assumes "length pre = length xs"
    and "Process_loop rt v pre xs tr = (None, xs', tr0)"
    and "CanSet (fst sf)" and "Tag_Get (Tag (fst sf)) ''ignored'' \<noteq> ''true''"
    and "Process_embedded rt v sf f tr0 = (None, f1, tr1)"
    and "Tag_Get (Tag (fst sf)) (TagName v tr1) = key" and "key \<noteq> []"
    and "Get v (tr1 @ [TagNameCall]) key sf = val0"
    and "Tag_Get (Tag (fst sf)) ''default'' = def"
    and "val = (if val0 \<noteq> [] then val0 else def)" and "val \<noteq> []"
    and "fst (processField rt val (snd sf) f1) = Some err"
  shows "fst (Process rt v (Boxed (PtrTo pp pn (StructOf sp sn (pre @ sf # post)))
                 (VPtr (VStruct (xs @ f # ys)))) tr)
           = Some (ParseError key (TypeString rt (snd sf)) val)"
proof -
  note at = Process_loop_at [OF assms(1-5), of post ys]
  note key = Process_key_policy [OF assms(6-9) refl, of rt f1]
  from assms(10-12) show ?thesis
    unfolding Process_struct at key
    by (auto split: prod.splits option.splits)
qed

theorem Process_conversion_error_witness:
  "fst (Process example_runtime (MockGetter [''crash.count'' \<mapsto> ''x''])
          (address_of Specification [VInt 0, VString []]) [])
     = Some (ParseError ''crash.count'' ''int'' ''x'')"
proof -
  let ?crash = "named_field ''SystemsCrashCount'' [(''emaNgaT'', ''crash.count''), (''required'', ''true'')] int_type"
  let ?handle = "named_field ''Handle'' [(''emaNgaT'', ''handle''), (''default'', ''zero.cool'')] string_type"
  show ?thesis
    using Process_conversion_error [where rt = example_runtime
        and v = "MockGetter [''crash.count'' \<mapsto> ''x'']"
        and pre = "[]" and xs = "[]" and tr = "[]" and sf = ?crash and f = "VInt 0"
        and post = "[?handle]" and ys = "[VString []]" and sp = "''github.com/Experticity/tagconfig_test''"
        and sn = "''Specification''" and pp = "[]" and pn = "[]" and val = "''x''"]
    by (simp add: example_defs example_eval)
qed

text \<open>
  The claim as it was stated asks for the field's name.  For the field
  \<^verbatim>\<open>SystemsCrashCount\<close> of the tests' \<^verbatim>\<open>Specification\<close>, with the key
  \<^verbatim>\<open>crash.count\<close>, the error names the key and not the field.
\<close>

theorem conversion_error_field_name_counterexample:
  "Name (fst (Fields Specification ! 0)) = ''SystemsCrashCount''
   \<and> decoderFrom example_runtime True True (snd (Fields Specification ! 0)) (VInt 0) = None
   \<and> fst (processField example_runtime ''x'' (snd (Fields Specification ! 0)) (VInt 0)) \<noteq> None
   \<and> fst (Process example_runtime (MockGetter [''crash.count'' \<mapsto> ''x''])
          (address_of Specification [VInt 0, VString []]) [])
     \<noteq> Some (ParseError ''SystemsCrashCount'' ''int'' ''x'')
   \<and> fst (Process example_runtime (MockGetter [''crash.count'' \<mapsto> ''x''])
          (address_of Specification [VInt 0, VString []]) [])
     = Some (ParseError ''crash.count'' ''int'' ''x'')"
  by (simp add: example_defs example_eval Process.simps)

subsection \<open>Embedded structs\<close>




subsection \<open>Invalid specifications\<close>

text \<open>
  C2.  When the value passed is not a pointer (the nil interface included), or is a
  pointer that does not point to a struct (a nil pointer included), both \<^verbatim>\<open>Process\<close>
  and \<^verbatim>\<open>PopulateExternalSource\<close> return \<^verbatim>\<open>ErrInvalidSpecification\<close>; no method of
  the source or of the sink has been called, and the value is as it was.
\<close>

theorem invalid_specification_rejected:
  assumes "ValueOf_Kind spec \<noteq> KPtr \<or> ValueOf_Kind (Elem spec) \<noteq> KStruct"
  shows "Process rt v spec tr = (Some ErrInvalidSpecification, spec, tr)
       \<and> PopulateExternalSource w spec tr = (Return (Some ErrInvalidSpecification), tr)"
  using assms by (auto simp: Process.simps PopulateExternalSource.simps)

theorem invalid_specification_rejected_witness:
  "Process example_runtime (MockGetter [''name'' \<mapsto> ''x''])
       (Boxed string_type (VString ''what do you think this is?'')) []
     = (Some ErrInvalidSpecification, Boxed string_type (VString ''what do you think this is?''), [])
   \<and> PopulateExternalSource mockSetter (Boxed string_type (VString ''what do you think this is?'')) []
     = (Return (Some ErrInvalidSpecification), [])
   \<and> Process example_runtime (MockGetter [''name'' \<mapsto> ''x'']) (Boxed Ignored (VStruct [VString []])) []
     = (Some ErrInvalidSpecification, Boxed Ignored (VStruct [VString []]), [])
   \<and> PopulateExternalSource mockSetter (Boxed (PtrTo [] [] string_type) (VPtr (VString ''a''))) []
     = (Return (Some ErrInvalidSpecification), [])
   \<and> PopulateExternalSource mockSetter (Boxed (PtrTo [] [] person) VNil) []
     = (Return (Some ErrInvalidSpecification), [])
   \<and> Process example_runtime (MockGetter [''name'' \<mapsto> ''x'']) NilInterface []
     = (Some ErrInvalidSpecification, NilInterface, [])"
  using invalid_specification_rejected [of "Boxed string_type (VString ''what do you think this is?'')"
      example_runtime "MockGetter [''name'' \<mapsto> ''x'']" "[]" mockSetter]
    invalid_specification_rejected [of "Boxed Ignored (VStruct [VString []])"
      example_runtime "MockGetter [''name'' \<mapsto> ''x'']" "[]" mockSetter]
    invalid_specification_rejected [of "Boxed (PtrTo [] [] string_type) (VPtr (VString ''a''))"
      example_runtime "MockGetter [''name'' \<mapsto> ''x'']" "[]" mockSetter]
    invalid_specification_rejected [of "Boxed (PtrTo [] [] person) VNil"
      example_runtime "MockGetter [''name'' \<mapsto> ''x'']" "[]" mockSetter]
    invalid_specification_rejected [of NilInterface
      example_runtime "MockGetter [''name'' \<mapsto> ''x'']" "[]" mockSetter]
  by (simp add: string_type_def Ignored_def person_def)

subsection \<open>Fields that are not embedded structs\<close>

text \<open>
  C10.  A field that is not both anonymous and of struct kind (an anonymous pointer to a
  struct is one) is not recursed into.  \<^verbatim>\<open>Process\<close> treats it by its own key alone:
  the rest of the loop body, \<open>Process_key\<close>, is applied to the field as it stands, and
  with an empty key the field stays as it is and no \<^verbatim>\<open>Get\<close> is made.
  \<^verbatim>\<open>PopulateExternalSource\<close>, when the field is exported and its key is not empty,
  calls \<^verbatim>\<open>Set\<close> once with the key and the field's value (the pointer itself), and
  returns the sink's error or goes on with the next field.
\<close>

theorem anonymous_non_struct_field:
  assumes "\<not> (Anonymous (fst sf) \<and> Kind (snd sf) = KStruct)" and "length pre = length xs"
  shows "(Process_loop rt v pre xs tr = (None, xs', tr0)
          \<and> CanSet (fst sf) \<and> Tag_Get (Tag (fst sf)) ''ignored'' \<noteq> ''true'' \<longrightarrow>
          Process_loop rt v (pre @ sf # post) (xs @ f # ys) tr =
            (case Process_key rt v sf f tr0 of
               (Some err, f2, tr2) \<Rightarrow> (Some err, xs' @ f2 # ys, tr2)
             | (None, f2, tr2) \<Rightarrow>
                 (case Process_loop rt v post ys tr2 of
                    (err, ys', tr3) \<Rightarrow> (err, xs' @ f2 # ys', tr3)))
          \<and> (Tag_Get (Tag (fst sf)) (TagName v tr0) = [] \<longrightarrow>
               Process_loop rt v (pre @ sf # post) (xs @ f # ys) tr =
                 (case Process_loop rt v post ys (tr0 @ [TagNameCall]) of
                    (err, ys', tr3) \<Rightarrow> (err, xs' @ f # ys', tr3))))
       \<and> (PopulateExternalSource_loop w pre xs tr = (Return None, tr0')
          \<and> CanInterface (fst sf) \<and> Tag_Get (Tag (fst sf)) (TagName w tr0') = key \<and> key \<noteq> []
          \<and> tr1' = tr0' @ [TagNameCall, SetCall key (Boxed (snd sf) f) sf] \<longrightarrow>
          PopulateExternalSource_loop w (pre @ sf # post) (xs @ f # ys) tr =
            (case Set w (tr0' @ [TagNameCall]) key (Boxed (snd sf) f) sf of
               Some err \<Rightarrow> (Return (Some err), tr1')
             | None \<Rightarrow> PopulateExternalSource_loop w post ys tr1'))"
proof -
  from assms(1) have emb: "Process_embedded rt v sf f tr0 = (None, f, tr0)"
    by (auto simp: Process_embedded_def)
  have "Process_loop rt v (pre @ sf # post) (xs @ f # ys) tr =
            (case Process_key rt v sf f tr0 of
               (Some err, f2, tr2) \<Rightarrow> (Some err, xs' @ f2 # ys, tr2)
             | (None, f2, tr2) \<Rightarrow>
                 (case Process_loop rt v post ys tr2 of
                    (err, ys', tr3) \<Rightarrow> (err, xs' @ f2 # ys', tr3)))"
    if "Process_loop rt v pre xs tr = (None, xs', tr0)" "CanSet (fst sf)"
      "Tag_Get (Tag (fst sf)) ''ignored'' \<noteq> ''true''"
    using Process_loop_at [OF assms(2) that emb] .
  moreover have "Process_key rt v sf f tr0 = (None, f, tr0 @ [TagNameCall])"
    if "Tag_Get (Tag (fst sf)) (TagName v tr0) = []"
    using that by (simp add: Process_key_def)
  moreover have "PopulateExternalSource_loop w (pre @ sf # post) (xs @ f # ys) tr =
            (case Set w (tr0' @ [TagNameCall]) key (Boxed (snd sf) f) sf of
               Some err \<Rightarrow> (Return (Some err), tr1')
             | None \<Rightarrow> PopulateExternalSource_loop w post ys tr1')"
    if "PopulateExternalSource_loop w pre xs tr = (Return None, tr0')" "CanInterface (fst sf)"
      "Tag_Get (Tag (fst sf)) (TagName w tr0') = key" "key \<noteq> []"
      "tr1' = tr0' @ [TagNameCall, SetCall key (Boxed (snd sf) f) sf]"
    using that assms(1)
    by (auto simp: PopulateExternalSource_loop_append [OF assms(2)] split: option.splits)
  ultimately show ?thesis by simp
qed

theorem anonymous_non_struct_field_witness:
  "Process_loop example_runtime
       (MockGetter [''name'' \<mapsto> ''x'', ''embed.relation.ship'' \<mapsto> ''child''])
       (Fields PointerEmbedding) [VPtr (VStruct [VString []]), VString []] []
     = (None, [VPtr (VStruct [VString []]), VString ''x''],
        [TagNameCall, TagNameCall, GetCall ''name'' (Fields PointerEmbedding ! 1)])
   \<and> PopulateExternalSource_loop mockSetter
       (Fields PointerEmbedding) [VPtr (VStruct [VString ''child'']), VString ''x''] []
     = (Return (Some (ForeignError ''Received a non string'')),
        [TagNameCall,
         SetCall ''embedded'' (Boxed (PtrTo [] [] EmbeddedSpecification) (VPtr (VStruct [VString ''child''])))
           (Fields PointerEmbedding ! 0)])"
proof -
  let ?sf = "embedded_field ''EmbeddedSpecification'' [(''bl'', ''embedded'')]
        (PtrTo [] [] EmbeddedSpecification)"
  let ?name = "named_field ''Name'' [(''emaNgaT'', ''name''), (''bl'', ''name'')] string_type"
  have 1: "\<not> (Anonymous (fst ?sf) \<and> Kind (snd ?sf) = KStruct)"
    "length ([] :: StructField list) = length ([] :: rvalue list)"
    by (simp_all add: example_defs)
  show ?thesis
    using anonymous_non_struct_field [OF 1, where rt = example_runtime
        and v = "MockGetter [''name'' \<mapsto> ''x'', ''embed.relation.ship'' \<mapsto> ''child'']"
        and tr = "[]" and xs' = "[]" and ?tr0.0 = "[]"
        and f = "VPtr (VStruct [VString []])" and post = "[?name]" and ys = "[VString []]"]
      anonymous_non_struct_field [OF 1, where w = mockSetter and tr = "[]" and ?tr0'.0 = "[]"
        and f = "VPtr (VStruct [VString ''child''])"
        and key = "''embedded''" and post = "[?name]" and ys = "[VString ''x'']"
        and ?tr1'.0 = "[TagNameCall,
         SetCall ''embedded'' (Boxed (PtrTo [] [] EmbeddedSpecification) (VPtr (VStruct [VString ''child''])))
           ?sf]"]
    by (simp add: example_defs example_eval)
qed

subsection \<open>Skipped fields\<close>

text \<open>
  \<^verbatim>\<open>Process\<close> passes over a field that cannot be set or is marked \<^verbatim>\<open>ignored\<close>: the
  field keeps its value and no method of the source is called for it.
\<close>

lemma Process_loop_skip:
  assumes "length pre = length xs"
    and "Process_loop rt v pre xs tr = (None, xs', tr0)"
    and "\<not> CanSet (fst sf) \<or> Tag_Get (Tag (fst sf)) ''ignored'' = ''true''"
  shows "Process_loop rt v (pre @ sf # post) (xs @ f # ys) tr =
     (case Process_loop rt v post ys tr0 of
        (err, ys', tr') \<Rightarrow> (err, xs' @ f # ys', tr'))"
  using assms
  by (simp add: Process_loop_append Process_loop_step split: prod.splits option.splits)

text \<open>
  C4.  \<^verbatim>\<open>PopulateExternalSource\<close> has no such test.  On a struct with an exported field
  \<^verbatim>\<open>User\<close>, a field \<^verbatim>\<open>Password\<close> marked \<^verbatim>\<open>ignored:"true"\<close> and an unexported field
  \<^verbatim>\<open>token\<close>, all three tagged, \<^verbatim>\<open>Process\<close> looks up \<^verbatim>\<open>User\<close> only, while
  \<^verbatim>\<open>PopulateExternalSource\<close> calls \<^verbatim>\<open>Set\<close> for \<^verbatim>\<open>Password\<close> too and then panics
  on \<^verbatim>\<open>token\<close>, whose value it may not box.
\<close>

theorem PopulateExternalSource_does_not_skip:
  "Tag_Get (Tag (fst (Fields Credentials ! 1))) ''ignored'' = ''true''
   \<and> \<not> CanSet (fst (Fields Credentials ! 2))
   \<and> Process example_runtime
        (MockGetter [''user'' \<mapsto> ''ann'', ''password'' \<mapsto> ''hunter2'', ''token'' \<mapsto> ''t0k''])
        (address_of Credentials [VString [], VString [], VString []]) []
      = (None, address_of Credentials [VString ''ann'', VString [], VString []],
         [TagNameCall, GetCall ''user'' (Fields Credentials ! 0)])
   \<and> PopulateExternalSource mockSetter
        (address_of Credentials [VString ''ann'', VString ''hunter2'', VString ''t0k'']) []
      = (Panic Interface_panic,
         [TagNameCall, SetCall ''user'' (Boxed string_type (VString ''ann'')) (Fields Credentials ! 0),
          TagNameCall, SetCall ''password'' (Boxed string_type (VString ''hunter2'')) (Fields Credentials ! 1),
          TagNameCall])"
  by (simp add: example_defs example_eval Process.simps PopulateExternalSource.simps)

subsection \<open>From a source to a sink\<close>

lemma Process_loop_length:
  "length sfs = length fs \<Longrightarrow> length (fst (snd (Process_loop rt v sfs fs tr))) = length fs"
proof (induction sfs arbitrary: fs tr)
  case Nil
  then show ?case by simp
next
  case (Cons sf sfs)
  then obtain f fs0 where fs: "fs = f # fs0" and len: "length sfs = length fs0"
    by (cases fs) auto
  have IH: "Process_loop rt v sfs fs0 h = (e, zs, h') \<Longrightarrow> length zs = length fs0" for h e zs h'
    using Cons.IH [OF len, of h] by simp
  show ?case
    unfolding fs Process_loop_step
    by (auto split: prod.splits option.splits dest: IH)
qed

lemma processField_string:
  "decoderFrom rt True True (Basic KString p n) x = None \<Longrightarrow>
   processField rt s (Basic KString p n) x = (None, VString s)"
  by (simp add: processField.simps assignBasic_def)

lemma Process_key_string:
  assumes "Tag_Get (Tag fi) (TagName v tr) = key" and "key \<noteq> []"
    and "Get v (tr @ [TagNameCall]) key (fi, Basic KString p n) = s" and "s \<noteq> []"
    and "decoderFrom rt True True (Basic KString p n) x = None"
  shows "Process_key rt v (fi, Basic KString p n) x tr
           = (None, VString s, tr @ [TagNameCall, GetCall key (fi, Basic KString p n)])"
  using assms by (simp add: Process_key_def Let_def processField_string)

lemma Process_loop_string_field:
  assumes "Process_loop rt v sfs fs tr = (None, fs', tr')" and "length sfs = length fs"
    and "i < length sfs" and "sfs ! i = (fi, Basic KString p n)"
    and "CanSet fi" and "Tag_Get (Tag fi) ''ignored'' \<noteq> ''true''"
    and "\<forall>h. Tag_Get (Tag fi) (TagName v h) = key" and "key \<noteq> []"
    and "\<forall>h. Get v h key (fi, Basic KString p n) = s" and "s \<noteq> []"
    and "\<forall>x. decoderFrom rt True True (Basic KString p n) x = None"
  shows "fs' ! i = VString s"
  using assms(1-4)
proof (induction sfs arbitrary: fs tr fs' i)
  case Nil
  then show ?case by simp
next
  case (Cons sf sfs)
  then obtain f fs0 where fs: "fs = f # fs0" and len: "length sfs = length fs0"
    by (cases fs) auto
  show ?case
  proof (cases i)
    case 0
    with Cons.prems have sf: "sf = (fi, Basic KString p n)" by simp
    have emb: "Process_embedded rt v (fi, Basic KString p n) f tr = (None, f, tr)"
      by (simp add: Process_embedded_def)
    have key: "Process_key rt v (fi, Basic KString p n) f tr
        = (None, VString s, tr @ [TagNameCall, GetCall key (fi, Basic KString p n)])"
      using assms(7-11) by (intro Process_key_string) auto
    from Cons.prems(1) assms(5,6) show ?thesis
      by (auto simp: fs sf 0 Process_loop_step emb key split: prod.splits)
  next
    case (Suc j)
    with Cons.prems have j: "j < length sfs" "sfs ! j = (fi, Basic KString p n)" by simp_all
    from Cons.prems(1) obtain f' zs h where fs': "fs' = f' # zs"
      and rest: "Process_loop rt v sfs fs0 h = (None, zs, tr')"
      unfolding fs Process_loop_step
      by (auto split: prod.splits option.splits if_splits)
    from Cons.IH [OF rest len j] show ?thesis
      by (simp add: fs' Suc)
  qed
qed

lemma PopulateExternalSource_trace:
  "set tr \<subseteq> set (snd (PopulateExternalSource w spec tr))"
  "set tr \<subseteq> set (snd (PopulateExternalSource_loop w fts fs tr))"
proof (induction w spec tr and w fts fs tr rule: PopulateExternalSource_PopulateExternalSource_loop.induct)
  case (1 v spec tr)
  then show ?case by (simp add: PopulateExternalSource.simps)
next
  case (2 v fs tr)
  then show ?case by simp
next
  case (3 v ft fts tr)
  then show ?case by simp
next
  case (4 v ft fts f fs tr)
  show ?case
  proof (cases "Anonymous (fst ft) \<and> Kind (snd ft) = KStruct")
    case True
    show ?thesis
    proof (cases "CanInterface (fst ft)")
      case False
      with True show ?thesis by simp
    next
      case can: True
      obtain r tr' where rec: "PopulateExternalSource v (Boxed (PtrTo [] [] (snd ft)) (VPtr f)) tr = (r, tr')"
        by (cases "PopulateExternalSource v (Boxed (PtrTo [] [] (snd ft)) (VPtr f)) tr")
      from "4.IH"(1) True can rec have a: "set tr \<subseteq> set tr'" by simp
      show ?thesis
      proof (cases r)
        case (Return e)
        show ?thesis
        proof (cases e)
          case None
          from "4.IH"(2) [OF _ _ rec [symmetric]] True can Return None
          have "set tr' \<subseteq> set (snd (PopulateExternalSource_loop v fts fs tr'))" by simp
          with a True can rec Return None show ?thesis by auto
        next
          case (Some err)
          with a True can rec Return show ?thesis by simp
        qed
      next
        case (Panic msg)
        with a True can rec show ?thesis by simp
      qed
    qed
  next
    case False
    with "4.IH"(3,4) show ?thesis
      by (auto split: option.splits simp: Let_def)
  qed
qed


lemma PopulateExternalSource_loop_calls:
  assumes "PopulateExternalSource_loop w fts fs tr = (Return None, tr')"
    and "length fts = length fs" and "i < length fts"
    and "\<not> (Anonymous (fst (fts ! i)) \<and> Kind (snd (fts ! i)) = KStruct)"
    and "\<forall>h. Tag_Get (Tag (fst (fts ! i))) (TagName w h) = key" and "key \<noteq> []"
  shows "SetCall key (Boxed (snd (fts ! i)) (fs ! i)) (fts ! i) \<in> set tr'"
proof -
  let ?pre = "take i fts" and ?xs = "take i fs"
  let ?post = "drop (Suc i) fts" and ?ys = "drop (Suc i) fs"
  let ?call = "SetCall key (Boxed (snd (fts ! i)) (fs ! i)) (fts ! i)"
  from assms(2,3) have split: "fts = ?pre @ fts ! i # ?post" "fs = ?xs @ fs ! i # ?ys"
    and len: "length ?pre = length ?xs"
    by (simp_all add: id_take_nth_drop)
  obtain r h where pre: "PopulateExternalSource_loop w ?pre ?xs tr = (r, h)"
    by (cases "PopulateExternalSource_loop w ?pre ?xs tr")
  from assms(1) have run: "PopulateExternalSource_loop w (?pre @ fts ! i # ?post) (?xs @ fs ! i # ?ys) tr
      = (Return None, tr')"
    using split by simp
  from run have r: "r = Return None"
    unfolding PopulateExternalSource_loop_append [OF len] pre
    by (auto split: outcome.splits option.splits)
  from run assms(4-6) have
    "PopulateExternalSource_loop w ?post ?ys (h @ [TagNameCall, ?call]) = (Return None, tr')"
    unfolding PopulateExternalSource_loop_append [OF len] pre r
    by (auto split: option.splits if_splits)
  with PopulateExternalSource_trace(2) [of "h @ [TagNameCall, ?call]" w ?post ?ys]
  show ?thesis by auto
qed

text \<open>
  C6, as the code has it.  Let a source answer under one tag name and independently of
  the calls made before, and let a sink use a tag name under which the field has the same
  key.  If \<^verbatim>\<open>Process\<close> succeeds on a struct, and \<^verbatim>\<open>PopulateExternalSource\<close> then
  succeeds on the struct it left, then for every field of kind string of the struct itself
  that is exported, not marked \<^verbatim>\<open>ignored\<close>, has no \<^verbatim>\<open>Decoder\<close>, has a key and has a
  value in the source, the sink's \<^verbatim>\<open>Set\<close> was called with the key and the very string
  the source gave.  For a field of any type that is not an embedded struct and has a key,
  \<^verbatim>\<open>Set\<close> was called with the key and what the field holds after \<^verbatim>\<open>Process\<close>, boxed
  with the field's type.
\<close>

theorem roundtrip_string_fields:
  assumes "Process rt v (Boxed (PtrTo pp pn (StructOf sp sn sfs)) (VPtr (VStruct fs))) tr
             = (None, spec', tr')"
    and "PopulateExternalSource w spec' tr'' = (Return None, tr3)"
    and "length sfs = length fs" and "i < length sfs" and "sfs ! i = (fi, Basic KString p n)"
    and "CanSet fi" and "Tag_Get (Tag fi) ''ignored'' \<noteq> ''true''"
    and "\<forall>h. Tag_Get (Tag fi) (TagName v h) = key"
    and "\<forall>h. Tag_Get (Tag fi) (TagName w h) = key" and "key \<noteq> []"
    and "\<forall>h. Get v h key (sfs ! i) = s" and "s \<noteq> []"
    and "\<forall>x. decoderFrom rt True True (Basic KString p n) x = None"
  shows "SetCall key (Boxed (Basic KString p n) (VString s)) (sfs ! i) \<in> set tr3
       \<and> (\<forall>j k. j < length sfs
              \<and> \<not> (Anonymous (fst (sfs ! j)) \<and> Kind (snd (sfs ! j)) = KStruct)
              \<and> (\<forall>h. Tag_Get (Tag (fst (sfs ! j))) (TagName w h) = k) \<and> k \<noteq> [] \<longrightarrow>
            SetCall k (Boxed (snd (sfs ! j)) (FieldValues (Elem spec') ! j)) (sfs ! j) \<in> set tr3)"
proof -
  obtain e fs' h where loop: "Process_loop rt v sfs fs tr = (e, fs', h)"
    by (cases "Process_loop rt v sfs fs tr")
  with assms(1) have e: "e = None"
    and spec': "spec' = Boxed (PtrTo pp pn (StructOf sp sn sfs)) (VPtr (VStruct fs'))"
    by (simp_all add: Process_struct)
  from Process_loop_length [OF assms(3), of rt v tr] loop assms(3)
  have len: "length sfs = length fs'"
    by simp
  from assms(11,5) have get: "\<forall>h. Get v h key (fi, Basic KString p n) = s" by simp
  have field: "fs' ! i = VString s"
    using Process_loop_string_field [OF loop [unfolded e] assms(3,4,5,6,7,8,10) get assms(12,13)] .
  from assms(2) have pop: "PopulateExternalSource_loop w sfs fs' tr'' = (Return None, tr3)"
    by (simp add: spec' PopulateExternalSource_struct)
  have calls: "SetCall k (Boxed (snd (sfs ! j)) (fs' ! j)) (sfs ! j) \<in> set tr3"
    if "j < length sfs" "\<not> (Anonymous (fst (sfs ! j)) \<and> Kind (snd (sfs ! j)) = KStruct)"
      "\<forall>h. Tag_Get (Tag (fst (sfs ! j))) (TagName w h) = k" "k \<noteq> []" for j k
    using PopulateExternalSource_loop_calls [OF pop len that] .
  from assms(5,9) have
    "\<not> (Anonymous (fst (sfs ! i)) \<and> Kind (snd (sfs ! i)) = KStruct)"
    "\<forall>h. Tag_Get (Tag (fst (sfs ! i))) (TagName w h) = key"
    by simp_all
  from calls [OF assms(4) this assms(10)] field assms(5)
  have "SetCall key (Boxed (Basic KString p n) (VString s)) (sfs ! i) \<in> set tr3" by simp
  moreover have "FieldValues (Elem spec') = fs'" by (simp add: spec')
  ultimately show ?thesis using calls by simp
qed

theorem roundtrip_string_fields_witness:
  "SetCall ''owner'' (Boxed string_type (VString ''ann'')) (Fields Account ! 0)
     \<in> set (snd (PopulateExternalSource acceptingSetter
                   (fst (snd (Process example_runtime
                                (MockGetter [''owner'' \<mapsto> ''ann'', ''limit'' \<mapsto> ''1507''])
                                (address_of Account [VString [], VInt 0]) []))) []))"
proof -
  let ?v = "MockGetter [''owner'' \<mapsto> ''ann'', ''limit'' \<mapsto> ''1507'']"
  let ?owner = "named_field ''Owner'' [(''emaNgaT'', ''owner''), (''bl'', ''owner'')] string_type"
  let ?limit = "named_field ''Limit'' [(''emaNgaT'', ''limit''), (''bl'', ''limit'')] int_type"
  have p: "Process example_runtime ?v
      (Boxed (PtrTo [] [] (StructOf ''main'' ''Account'' [?owner, ?limit])) (VPtr (VStruct [VString [], VInt 0]))) []
     = (None, address_of Account [VString ''ann'', VInt 1507],
        [TagNameCall, GetCall ''owner'' ?owner, TagNameCall, GetCall ''limit'' ?limit])"
    by (simp add: example_defs example_eval Process.simps)
  have q: "PopulateExternalSource acceptingSetter (address_of Account [VString ''ann'', VInt 1507]) []
     = (Return None,
        [TagNameCall, SetCall ''owner'' (Boxed string_type (VString ''ann'')) ?owner,
         TagNameCall, SetCall ''limit'' (Boxed int_type (VInt 1507)) ?limit])"
    by (simp add: example_defs example_eval PopulateExternalSource.simps acceptingSetter_def)
  from roundtrip_string_fields [OF p q, where i = 0 and key = "''owner''" and s = "''ann''"
      and fi = "fst ?owner" and p = "[]" and n = "''string''", THEN conjunct1]
  have "SetCall ''owner'' (Boxed (Basic KString [] ''string'') (VString ''ann'')) ?owner
     \<in> set [TagNameCall, SetCall ''owner'' (Boxed string_type (VString ''ann'')) ?owner,
         TagNameCall, SetCall ''limit'' (Boxed int_type (VInt 1507)) ?limit]"
    by (simp add: example_defs example_eval acceptingSetter_def)
  with p q show ?thesis
    by (simp add: example_defs)
qed

text \<open>
  The claim as it was stated covers every scalar field.  A field of kind \<^verbatim>\<open>int\<close> is
  handed to \<^verbatim>\<open>Set\<close> as the integer it was converted to, not as the string of the
  source: the tests' \<^verbatim>\<open>mockSetter\<close> refuses it, and its map has nothing under the key.
\<close>

theorem roundtrip_counterexample:
  "Process example_runtime (MockGetter [''owner'' \<mapsto> ''ann'', ''limit'' \<mapsto> ''1507''])
       (address_of Account [VString [], VInt 0]) []
     = (None, address_of Account [VString ''ann'', VInt 1507],
        [TagNameCall, GetCall ''owner'' (Fields Account ! 0),
         TagNameCall, GetCall ''limit'' (Fields Account ! 1)])
   \<and> PopulateExternalSource mockSetter (address_of Account [VString ''ann'', VInt 1507]) []
     = (Return (Some (ForeignError ''Received a non string'')),
        [TagNameCall, SetCall ''owner'' (Boxed string_type (VString ''ann'')) (Fields Account ! 0),
         TagNameCall, SetCall ''limit'' (Boxed int_type (VInt 1507)) (Fields Account ! 1)])
   \<and> SetCall ''limit'' (Boxed string_type (VString ''1507'')) (Fields Account ! 1)
       \<notin> set (snd (PopulateExternalSource mockSetter (address_of Account [VString ''ann'', VInt 1507]) []))
   \<and> mockSetter_mem (snd (PopulateExternalSource mockSetter
                            (address_of Account [VString ''ann'', VInt 1507]) [])) ''limit''
       = None"
  by (simp add: example_defs example_eval Process.simps PopulateExternalSource.simps
      mockSetter_mem_def mockSetter_store_def)

end
